theory Spec2Isabelle
  imports Main "HOL-Library.Word"
begin

section \<open>Schnorr key pairs of go-secp256k1 (schnorr\_keypair.go)\<close>

text \<open>
  The Go file is a thin layer over the C library libsecp256k1 (the Curve Engine) and over
  \<^verbatim>\<open>crypto/rand\<close> (the Randomness Source). Both are outside the file. The Go functions
  are embedded here with the engine and the source as explicit arguments, and with a
  \<open>world\<close> that counts the reads of the source and logs every engine primitive called,
  so that "fails before the engine is reached" is a statement about the log.
\<close>

subsection \<open>Data\<close>

type_synonym byte = "8 word"

text \<open>\<^verbatim>\<open>C.int\<close>: the return flag of every engine primitive and the parity it reports.\<close>

type_synonym cint = "32 word"

text \<open>
  \<^verbatim>\<open>type SchnorrKeyPair struct { keypair C.secp256k1_keypair }\<close>, where the C struct is
  \<^verbatim>\<open>unsigned char data[96]\<close>. The field below is \<^verbatim>\<open>key.keypair.data\<close>.
\<close>

record SchnorrKeyPair =
  keypair_data :: "byte list"

definition SerializedPrivateKeySize :: nat where
  "SerializedPrivateKeySize = 32"

text \<open>
  The errors the file creates, one constructor for each \<^verbatim>\<open>errors.New\<close> /
  \<^verbatim>\<open>errors.Errorf\<close> site (the stack that \<^verbatim>\<open>errors.WithStack\<close> attaches is not modelled),
  and the error a read of the randomness source may return.
\<close>

datatype error =
    ErrZeroedKeyPair
  | ErrInvalidKey
  | ErrInvalidLength nat nat
  | ErrAddFailed
  | ErrInvalidKeypairData
  | ErrSignFailed
  | ErrRandSource string

text \<open>A Go call either returns or panics; the only panic of the file reports the parity.\<close>

datatype 'a outcome = Return 'a | Panic cint

subsection \<open>The two collaborators\<close>

text \<open>
  The four primitives of libsecp256k1 that the file calls, as functions of the buffers
  they read, returning the flag and the buffers they write. \<open>keypair_xonly_pub\<close> and
  \<open>schnorrsig_sign\<close> take the keypair as \<^verbatim>\<open>const\<close>; \<open>keypair_xonly_tweak_add\<close>
  rewrites it in place. The parity is \<open>None\<close> when the engine did not write through the
  pointer.
\<close>

record curve_engine =
  secp256k1_keypair_create :: "byte list \<Rightarrow> cint \<times> byte list"
  secp256k1_keypair_xonly_tweak_add :: "byte list \<Rightarrow> byte list \<Rightarrow> cint \<times> byte list"
  secp256k1_keypair_xonly_pub :: "byte list \<Rightarrow> cint \<times> byte list \<times> cint option"
  secp256k1_schnorrsig_sign :: "byte list \<Rightarrow> byte list \<Rightarrow> byte list \<Rightarrow> cint \<times> byte list"

datatype engine_call = Keypair_create | Keypair_xonly_tweak_add | Keypair_xonly_pub | Schnorrsig_sign

record world =
  rand_reads :: nat
  engine_log :: "engine_call list"

definition called :: "engine_call \<Rightarrow> world \<Rightarrow> world" where
  "called c w = w\<lparr>engine_log := engine_log w @ [c]\<rparr>"

text \<open>
  The randomness source: what its \<open>i\<close>-th read writes and the error it returns with it.
  \<^verbatim>\<open>rand.Read(buf)\<close> overwrites the first \<open>n\<close> bytes of the buffer and returns \<open>n\<close>.
\<close>

type_synonym rand_source = "nat \<Rightarrow> byte list \<times> error option"

definition rand_Read :: "rand_source \<Rightarrow> byte list \<Rightarrow> world \<Rightarrow> (byte list \<times> nat \<times> error option) \<times> world" where
  "rand_Read src buf w =
     (case src (rand_reads w) of (bs, err) \<Rightarrow>
        let n = min (length bs) (length buf)
        in ((take n bs @ drop n buf, n, err), w\<lparr>rand_reads := Suc (rand_reads w)\<rparr>))"

subsection \<open>The zeroed gate and the parity conversion\<close>

text \<open>
  Modelled from the spec: the package-level helper \<^verbatim>\<open>isZeroed(slice)\<close>, which the method
  below calls on each segment, is defined in another file of the package; the spec
  describes a segment passing it as "all-zero".
\<close>

definition isZeroed_slice :: "byte list \<Rightarrow> bool" where
  "isZeroed_slice bs = list_all (\<lambda>b. b = 0) bs"

text \<open>
  \<^verbatim>\<open>isZeroed(data[:32]) || isZeroed(data[32:64]) || isZeroed(data[64:])\<close>
\<close>

definition isZeroed :: "SchnorrKeyPair \<Rightarrow> bool" where
  "isZeroed key =
     (isZeroed_slice (take 32 (keypair_data key))
      \<or> isZeroed_slice (take 32 (drop 32 (keypair_data key)))
      \<or> isZeroed_slice (drop 64 (keypair_data key)))"

definition parityBitToBool :: "cint \<Rightarrow> bool outcome" where
  "parityBitToBool parity =
     (if parity = 0 then Return False
      else if parity = 1 then Return True
      else Panic parity)"

subsection \<open>Deserialization and serialization\<close>

text \<open>
  Go's \<^verbatim>\<open>copy(dst, src)\<close> overwrites the first \<open>min (len dst) (len src)\<close> bytes of
  \<open>dst\<close>.
\<close>

definition copy_bytes :: "byte list \<Rightarrow> byte list \<Rightarrow> byte list" where
  "copy_bytes dst src =
     (let n = min (length dst) (length src) in take n src @ drop n dst)"

text \<open>
  The Go values are fixed-size arrays (\<^verbatim>\<open>data[96]\<close>, \<^verbatim>\<open>[64]byte\<close>) that the engine
  writes through a pointer: what the engine returns is stored into the array with
  \<open>copy_bytes\<close>, over the zero value for a fresh array and over the old content for
  \<^verbatim>\<open>Add\<close>. For an engine that returns buffers of the declared sizes this is the
  returned buffer itself.
\<close>

definition DeserializePrivateKey ::
  "curve_engine \<Rightarrow> byte list \<Rightarrow> world \<Rightarrow> (SchnorrKeyPair option \<times> error option) \<times> world" where
  "DeserializePrivateKey eng sk w =
     (case secp256k1_keypair_create eng sk of (ret, kp) \<Rightarrow>
        if ret \<noteq> 1 then ((None, Some ErrInvalidKey), called Keypair_create w)
        else ((Some \<lparr>keypair_data = copy_bytes (replicate 96 0) kp\<rparr>, None), called Keypair_create w))"

definition DeserializePrivateKeyFromSlice ::
  "curve_engine \<Rightarrow> byte list \<Rightarrow> world \<Rightarrow> (SchnorrKeyPair option \<times> error option) \<times> world" where
  "DeserializePrivateKeyFromSlice eng bs w =
     (if length bs \<noteq> SerializedPrivateKeySize
      then ((None, Some (ErrInvalidLength (length bs) SerializedPrivateKeySize)), w)
      else DeserializePrivateKey eng (copy_bytes (replicate SerializedPrivateKeySize 0) bs) w)"

text \<open>The loop \<^verbatim>\<open>for i := 0; i < 32; i++ { ret[i] = byte(key.keypair.data[i]) }\<close>.\<close>

definition SerializePrivateKey :: "SchnorrKeyPair \<Rightarrow> byte list" where
  "SerializePrivateKey key =
     fold (\<lambda>i ret. ret[i := keypair_data key ! i]) [0..<32] (replicate 32 0)"

subsection \<open>Key generation\<close>

text \<open>
  The \<^verbatim>\<open>for\<close> loop of \<^verbatim>\<open>GeneratePrivateKey\<close> has no bound: it ends only on a failed
  read or on a secret the engine accepts. Not returning is the value \<open>None\<close>.
\<close>

partial_function (option) GeneratePrivateKey_loop ::
  "curve_engine \<Rightarrow> rand_source \<Rightarrow> byte list \<Rightarrow> world
     \<Rightarrow> ((SchnorrKeyPair option \<times> error option) \<times> world) option" where
  "GeneratePrivateKey_loop eng src rawKey w =
     (let r = rand_Read src rawKey w;
          rawKey' = fst (fst r); n = fst (snd (fst r)); err = snd (snd (fst r)); w1 = snd r
      in if err \<noteq> None \<or> n \<noteq> length rawKey' then Some ((None, err), w1)
         else let d = DeserializePrivateKey eng rawKey' w1
              in if snd (fst d) = None then Some ((fst (fst d), None), snd d)
                 else GeneratePrivateKey_loop eng src rawKey' (snd d))"

definition GeneratePrivateKey ::
  "curve_engine \<Rightarrow> rand_source \<Rightarrow> world \<Rightarrow> ((SchnorrKeyPair option \<times> error option) \<times> world) option" where
  "GeneratePrivateKey eng src w =
     GeneratePrivateKey_loop eng src (replicate SerializedPrivateKeySize 0) w"

subsection \<open>Tweak addition, public key, signing\<close>

text \<open>
  \<^verbatim>\<open>Add\<close> has a pointer receiver and hands \<^verbatim>\<open>&key.keypair\<close> to the engine, so the key
  pair after the call holds whatever the engine wrote, also when the engine fails. The
  result is the error and the key pair after the call.
\<close>

definition Add ::
  "curve_engine \<Rightarrow> byte list \<Rightarrow> SchnorrKeyPair \<Rightarrow> world \<Rightarrow> (error option \<times> SchnorrKeyPair) \<times> world" where
  "Add eng tweak key w =
     (if isZeroed key then ((Some ErrZeroedKeyPair, key), w)
      else case secp256k1_keypair_xonly_tweak_add eng (keypair_data key) tweak of (ret, kp) \<Rightarrow>
        let key' = key\<lparr>keypair_data := copy_bytes (keypair_data key) kp\<rparr>
        in if ret \<noteq> 1 then ((Some ErrAddFailed, key'), called Keypair_xonly_tweak_add w)
           else ((None, key'), called Keypair_xonly_tweak_add w))"

text \<open>\<^verbatim>\<open>cParity := C.int(42)\<close> keeps its value unless the engine writes through the pointer.\<close>

definition schnorrPublicKeyInternal ::
  "curve_engine \<Rightarrow> SchnorrKeyPair \<Rightarrow> world
     \<Rightarrow> (byte list option \<times> bool \<times> error option) outcome \<times> world" where
  "schnorrPublicKeyInternal eng key w =
     (if isZeroed key then (Return (None, False, Some ErrZeroedKeyPair), w)
      else case secp256k1_keypair_xonly_pub eng (keypair_data key) of (ret, pubkey, par) \<Rightarrow>
        let cParity = (case par of None \<Rightarrow> 42 | Some p \<Rightarrow> p)
        in if ret \<noteq> 1 then (Return (None, False, Some ErrInvalidKeypairData), called Keypair_xonly_pub w)
           else (case parityBitToBool cParity of
                   Return b \<Rightarrow> (Return (Some (copy_bytes (replicate 64 0) pubkey), b, None), called Keypair_xonly_pub w)
                 | Panic p \<Rightarrow> (Panic p, called Keypair_xonly_pub w)))"

definition SchnorrPublicKey ::
  "curve_engine \<Rightarrow> SchnorrKeyPair \<Rightarrow> world \<Rightarrow> (byte list option \<times> error option) outcome \<times> world" where
  "SchnorrPublicKey eng key w =
     (case schnorrPublicKeyInternal eng key w of
        (Return (pubkey, wasOdd, err), w') \<Rightarrow> (Return (pubkey, err), w')
      | (Panic p, w') \<Rightarrow> (Panic p, w'))"

definition schnorrSignInternal ::
  "curve_engine \<Rightarrow> SchnorrKeyPair \<Rightarrow> byte list \<Rightarrow> byte list \<Rightarrow> world
     \<Rightarrow> (byte list option \<times> error option) \<times> world" where
  "schnorrSignInternal eng key hash auxiliaryRand w =
     (if isZeroed key then ((None, Some ErrZeroedKeyPair), w)
      else case secp256k1_schnorrsig_sign eng hash (keypair_data key) auxiliaryRand of (ret, signature) \<Rightarrow>
        if ret \<noteq> 1 then ((None, Some ErrSignFailed), called Schnorrsig_sign w)
        else ((Some (copy_bytes (replicate 64 0) signature), None), called Schnorrsig_sign w))"

definition SchnorrSign ::
  "curve_engine \<Rightarrow> rand_source \<Rightarrow> SchnorrKeyPair \<Rightarrow> byte list \<Rightarrow> world
     \<Rightarrow> (byte list option \<times> error option) \<times> world" where
  "SchnorrSign eng src key hash w =
     (case rand_Read src (replicate 32 0) w of ((auxilaryRand, n, err), w1) \<Rightarrow>
        if err \<noteq> None \<or> n \<noteq> length auxilaryRand then ((None, err), w1)
        else schnorrSignInternal eng key hash auxilaryRand w1)"

subsection \<open>The Curve Engine as the spec describes it\<close>

text \<open>The order of the secp256k1 group, the \<open>groupOrder\<close> of the spec.\<close>

definition groupOrder :: nat where
  "groupOrder = 0xFFFFFFFFFFFFFFFFFFFFFFFFFFFFFFFEBAAEDCE6AF48A03BBFD25E8CD0364141"

text \<open>Big-endian reading of a byte string, and the \<open>k\<close>-byte big-endian encoding.\<close>

fun be_nat :: "byte list \<Rightarrow> nat" where
  "be_nat [] = 0"
| "be_nat (b # bs) = unat b * 256 ^ length bs + be_nat bs"

fun be_bytes :: "nat \<Rightarrow> nat \<Rightarrow> byte list" where
  "be_bytes 0 x = []"
| "be_bytes (Suc k) x = of_nat (x div 256 ^ k) # be_bytes k x"

definition valid_secret :: "nat \<Rightarrow> bool" where
  "valid_secret s = (0 < s \<and> s < groupOrder)"

text \<open>
  What the spec leaves opaque about the engine is a parameter: the 64-byte cached public
  representation of the point of a secret, whether that point has an odd y-coordinate,
  and what a failing tweak addition leaves in the keypair buffer (the spec is silent on
  it; the header \<^verbatim>\<open>secp256k1_extrakeys.h\<close> that the Go file includes documents the keypair as
  "set to an invalid value if this function returns 0").
\<close>

record curve_points =
  point_rep :: "nat \<Rightarrow> byte list"
  y_is_odd :: "nat \<Rightarrow> bool"
  failed_tweak_state :: "byte list \<Rightarrow> byte list"

text \<open>The 96-byte record: the 32-byte secret, then the cached public representation.\<close>

definition keypair_of :: "curve_points \<Rightarrow> nat \<Rightarrow> byte list" where
  "keypair_of pts s = be_bytes 32 s @ point_rep pts s"

definition secret_of :: "byte list \<Rightarrow> nat" where
  "secret_of kp = be_nat (take 32 kp)"

text \<open>
  Modelled from the spec: \<^verbatim>\<open>secp256k1_keypair_create\<close> of libsecp256k1, which is not part
  of the Go file. The spec (4.1 Deserialize, 3 KeyPair): the secret must satisfy
  \<open>0 < secret < groupOrder\<close>; the record combines the 32-byte secret scalar and the
  64-byte cached public-point representation.
\<close>

definition spec_keypair_create :: "curve_points \<Rightarrow> byte list \<Rightarrow> cint \<times> byte list" where
  "spec_keypair_create pts sk =
     (if valid_secret (be_nat sk) then (1, keypair_of pts (be_nat sk)) else (0, replicate 96 0))"

text \<open>
  Modelled from the spec: \<^verbatim>\<open>secp256k1_keypair_xonly_tweak_add\<close> of libsecp256k1, which is
  not part of the Go file. The spec (4.1 Add): new secret = (old secret + tweak) mod
  groupOrder, with the sign adjusted by the engine according to the parity of the x-only
  point; failure if the tweak is at least the group order or the result is the
  additive identity. The parity flip is the negation of the old secret when its point
  has an odd y-coordinate.
\<close>

definition parity_flip :: "curve_points \<Rightarrow> byte list \<Rightarrow> bool" where
  "parity_flip pts kp = y_is_odd pts (secret_of kp)"

definition spec_keypair_xonly_tweak_add ::
  "curve_points \<Rightarrow> byte list \<Rightarrow> byte list \<Rightarrow> cint \<times> byte list" where
  "spec_keypair_xonly_tweak_add pts kp tweak =
     (let s = (if parity_flip pts kp then groupOrder - secret_of kp else secret_of kp);
          r = (s + be_nat tweak) mod groupOrder
      in if groupOrder \<le> be_nat tweak \<or> r = 0 then (0, failed_tweak_state pts kp)
         else (1, keypair_of pts r))"

definition spec_engine :: "curve_points \<Rightarrow> curve_engine \<Rightarrow> curve_engine" where
  "spec_engine pts eng =
     eng\<lparr>secp256k1_keypair_create := spec_keypair_create pts,
          secp256k1_keypair_xonly_tweak_add := spec_keypair_xonly_tweak_add pts\<rparr>"

text \<open>
  The public representation of every valid secret has 64 bytes and neither half of it is
  all-zero (the point at infinity aside, no point of the curve has a zero coordinate).
\<close>

definition points_ok :: "curve_points \<Rightarrow> bool" where
  "points_ok pts =
     (\<forall>s. valid_secret s \<longrightarrow>
        length (point_rep pts s) = 64
        \<and> \<not> isZeroed_slice (take 32 (point_rep pts s))
        \<and> \<not> isZeroed_slice (drop 32 (point_rep pts s)))"

subsection \<open>Concrete collaborators for evaluation\<close>

text \<open>
  An instance of the opaque parameters and of the two remaining primitives, used where a
  theorem is evaluated at a concrete input. The public representation, the parity and
  the two primitives are placeholders of the right sizes, not the curve's values; a
  failing tweak addition leaves the all-zero record, the invalid value of the header.
\<close>

definition sample_points :: curve_points where
  "sample_points =
     \<lparr>point_rep = (\<lambda>s. replicate 64 1),
      y_is_odd = (\<lambda>s. odd s),
      failed_tweak_state = (\<lambda>kp. replicate 96 0)\<rparr>"

definition sample_engine :: curve_engine where
  "sample_engine =
     \<lparr>secp256k1_keypair_create = spec_keypair_create sample_points,
      secp256k1_keypair_xonly_tweak_add = spec_keypair_xonly_tweak_add sample_points,
      secp256k1_keypair_xonly_pub = (\<lambda>kp. (1, take 64 (drop 32 kp), Some (if parity_flip sample_points kp then 1 else 0))),
      secp256k1_schnorrsig_sign = (\<lambda>hash kp aux. (1, hash @ aux))\<rparr>"

text \<open>A key pair whose secret segment is non-zero and whose public half is all-zero.\<close>

definition half_zeroed_key :: SchnorrKeyPair where
  "half_zeroed_key = \<lparr>keypair_data = replicate 32 1 @ replicate 64 0\<rparr>"

text \<open>A valid key pair of the described engine, for the secret 2.\<close>

definition sample_key :: SchnorrKeyPair where
  "sample_key = \<lparr>keypair_data = keypair_of sample_points 2\<rparr>"

text \<open>An engine that reports success and the parity 2.\<close>

definition parity_two_engine :: curve_engine where
  "parity_two_engine =
     sample_engine\<lparr>secp256k1_keypair_xonly_pub := (\<lambda>kp. (1, take 64 (drop 32 kp), Some 2))\<rparr>"

text \<open>The key pair whose 96 bytes are all zero.\<close>

definition zeroed_key :: SchnorrKeyPair where
  "zeroed_key = \<lparr>keypair_data = replicate 96 0\<rparr>"

text \<open>
  Three randomness sources: one whose read fails with an error, one whose read is short
  (31 bytes) without an error, and one that fills the buffer.
\<close>

definition failing_source :: rand_source where
  "failing_source = (\<lambda>i. ([], Some (ErrRandSource ''read failed'')))"


definition full_source :: rand_source where
  "full_source = (\<lambda>i. (replicate 32 7, None))"

text \<open>The valid key pair of the described engine for a secret.\<close>

definition key_of_secret :: "nat \<Rightarrow> SchnorrKeyPair" where
  "key_of_secret s = \<lparr>keypair_data = keypair_of sample_points s\<rparr>"

text \<open>A randomness source that fills the buffer with the encoding of the secret 2.\<close>

definition good_source :: rand_source where
  "good_source = (\<lambda>i. (be_bytes 32 2, None))"

definition world0 :: world where
  "world0 = \<lparr>rand_reads = 0, engine_log = []\<rparr>"

section \<open>Properties\<close>

subsection \<open>Auxiliary facts\<close>

lemma isZeroed_slice_nth: "isZeroed_slice bs = (\<forall>i<length bs. bs ! i = 0)"
  by (simp add: isZeroed_slice_def list_all_length)

lemma length_be_bytes [simp]: "length (be_bytes k x) = k"
  by (induction k) simp_all

lemma be_nat_be_bytes: "be_nat (be_bytes k x) = x mod 256 ^ k"
proof (induction k)
  case 0
  show ?case by simp
next
  case (Suc k)
  have "unat (of_nat (x div 256 ^ k) :: byte) = x div 256 ^ k mod 256"
    by (simp add: unat_of_nat)
  then have "be_nat (be_bytes (Suc k) x) = (x div 256 ^ k mod 256) * 256 ^ k + x mod 256 ^ k"
    using Suc by simp
  also have "\<dots> = x mod (256 ^ k * 256)"
    by (simp add: mod_mult2_eq)
  finally show ?case by (simp add: mult.commute)
qed

lemma groupOrder_less: "groupOrder < 256 ^ 32"
  by (simp add: groupOrder_def)

lemma be_nat_be_bytes_secret: "s < groupOrder \<Longrightarrow> be_nat (be_bytes 32 s) = s"
  using groupOrder_less by (simp add: be_nat_be_bytes)

lemma isZeroed_slice_be_nat: "isZeroed_slice bs \<Longrightarrow> be_nat bs = 0"
  by (induction bs) (simp_all add: isZeroed_slice_def)

lemma be_bytes_not_zeroed: "valid_secret s \<Longrightarrow> \<not> isZeroed_slice (be_bytes 32 s)"
  using isZeroed_slice_be_nat [of "be_bytes 32 s"] be_nat_be_bytes_secret [of s]
  by (auto simp: valid_secret_def)

lemma copy_loop:
  "n \<le> length d \<Longrightarrow> n \<le> m \<Longrightarrow>
   fold (\<lambda>i ret. ret[i := d ! i]) [0..<n] (replicate m (0::byte)) = take n d @ replicate (m - n) 0"
proof (induction n)
  case 0
  show ?case by simp
next
  case (Suc n)
  then have "fold (\<lambda>i ret. ret[i := d ! i]) [0..<Suc n] (replicate m (0::byte))
             = (take n d @ replicate (m - n) 0)[n := d ! n]"
    by simp
  also have "\<dots> = take n d @ (replicate (m - n) 0)[0 := d ! n]"
    using Suc.prems by (simp add: list_update_append)
  also have "(replicate (m - n) (0::byte))[0 := d ! n] = d ! n # replicate (m - Suc n) 0"
    using Suc.prems by (cases "m - n") (simp_all add: Suc_diff_le)
  finally show ?case using Suc.prems by (simp add: take_Suc_conv_app_nth)
qed

lemma SerializePrivateKey_take:
  "32 \<le> length (keypair_data key) \<Longrightarrow> SerializePrivateKey key = take 32 (keypair_data key)"
  using copy_loop [of 32 "keypair_data key" 32] by (simp add: SerializePrivateKey_def)

lemma length_copy_bytes [simp]: "length (copy_bytes dst src) = length dst"
  by (simp add: copy_bytes_def Let_def)

lemma take_copy_bytes:
  "k \<le> length dst \<Longrightarrow> k \<le> length src \<Longrightarrow> take k (copy_bytes dst src) = take k src"
  by (simp add: copy_bytes_def Let_def min_def)

lemma copy_bytes_same_length: "length src = length dst \<Longrightarrow> copy_bytes dst src = src"
  by (simp add: copy_bytes_def Let_def)

lemma take_keypair_of [simp]: "take 32 (keypair_of pts s) = be_bytes 32 s"
  by (simp add: keypair_of_def)

lemma secret_of_keypair_of: "s < groupOrder \<Longrightarrow> secret_of (keypair_of pts s) = s"
  by (simp add: secret_of_def be_nat_be_bytes_secret)

lemma engine_fields [simp]:
  "secp256k1_keypair_create (spec_engine pts eng) = spec_keypair_create pts"
  "secp256k1_keypair_xonly_tweak_add (spec_engine pts eng) = spec_keypair_xonly_tweak_add pts"
  by (simp_all add: spec_engine_def)

lemma points_ok_sample: "points_ok sample_points"
  by (simp add: points_ok_def sample_points_def isZeroed_slice_def list_all_iff)

lemma valid_secret_2: "valid_secret 2"
  by (simp add: valid_secret_def groupOrder_def)

lemma keypair_of_segments:
  assumes "length (point_rep pts s) = 64"
  shows "take 32 (keypair_of pts s) = be_bytes 32 s"
    and "take 32 (drop 32 (keypair_of pts s)) = take 32 (point_rep pts s)"
    and "drop 64 (keypair_of pts s) = drop 32 (point_rep pts s)"
    and "length (keypair_of pts s) = 96"
  using assms by (simp_all add: keypair_of_def)

lemma keypair_of_not_zeroed:
  assumes "points_ok pts" and "valid_secret s"
  shows "\<not> isZeroed \<lparr>keypair_data = keypair_of pts s\<rparr>"
proof -
  from assms have len: "length (point_rep pts s) = 64"
    and a: "\<not> isZeroed_slice (take 32 (point_rep pts s))"
    and b: "\<not> isZeroed_slice (drop 32 (point_rep pts s))"
    by (simp_all add: points_ok_def)
  show ?thesis
    using a b be_bytes_not_zeroed [OF assms(2)]
    by (simp add: isZeroed_def keypair_of_segments [OF len])
qed

lemma sample_key_not_zeroed: "\<not> isZeroed sample_key"
  unfolding sample_key_def by (rule keypair_of_not_zeroed [OF points_ok_sample valid_secret_2])

lemma all_zero_isZeroed: "keypair_data key = replicate 96 0 \<Longrightarrow> isZeroed key"
  by (simp add: isZeroed_def isZeroed_slice_def list_all_iff)

lemma rand_Read_log: "engine_log (snd (rand_Read src buf w)) = engine_log w"
  by (simp add: rand_Read_def Let_def split: prod.splits)

lemma groupOrder_pos: "0 < groupOrder"
  by (simp add: groupOrder_def)

lemma mod_groupOrder_less: "x mod groupOrder < groupOrder"
  using groupOrder_pos by simp

lemma Add_spec_success:
  assumes add: "Add (spec_engine pts eng) t key w = ((None, key'), w')"
    and len: "32 \<le> length (keypair_data key)"
    and nf: "\<not> parity_flip pts (keypair_data key)"
  shows "take 32 (keypair_data key')
         = be_bytes 32 ((secret_of (keypair_data key) + be_nat t) mod groupOrder)"
proof -
  let ?r = "(secret_of (keypair_data key) + be_nat t) mod groupOrder"
  from add nf have "keypair_data key' = copy_bytes (keypair_data key) (keypair_of pts ?r)"
    by (auto simp: Add_def spec_keypair_xonly_tweak_add_def Let_def split: if_splits)
  moreover have "32 \<le> length (keypair_of pts ?r)"
    by (simp add: keypair_of_def)
  ultimately show ?thesis
    using len by (simp add: take_copy_bytes)
qed

lemma Add_spec_secret:
  assumes "Add (spec_engine pts eng) t key w = ((None, key'), w')"
    and "32 \<le> length (keypair_data key)"
    and "\<not> parity_flip pts (keypair_data key)"
  shows "secret_of (keypair_data key') = (secret_of (keypair_data key) + be_nat t) mod groupOrder"
  using Add_spec_success [OF assms] mod_groupOrder_less
  by (simp add: secret_of_def be_nat_be_bytes_secret)

lemma Add_length: "Add e t key w = ((r, key'), w') \<Longrightarrow> length (keypair_data key') = length (keypair_data key)"
  by (auto simp: Add_def Let_def split: if_splits prod.splits)

lemma Add_spec_eval:
  assumes "points_ok pts" and "valid_secret s" and "\<not> y_is_odd pts s"
    and "be_nat t < groupOrder" and "(s + be_nat t) mod groupOrder \<noteq> 0"
  shows "Add (spec_engine pts eng) t \<lparr>keypair_data = keypair_of pts s\<rparr> w
         = ((None, \<lparr>keypair_data = keypair_of pts ((s + be_nat t) mod groupOrder)\<rparr>),
            called Keypair_xonly_tweak_add w)"
proof -
  let ?r = "(s + be_nat t) mod groupOrder"
  have v: "valid_secret ?r"
    using assms(5) mod_groupOrder_less [of "s + be_nat t"] by (simp add: valid_secret_def)
  have l: "length (keypair_of pts s) = 96" "length (keypair_of pts ?r) = 96"
    using assms(1,2) v by (simp_all add: points_ok_def keypair_of_def)
  have sec: "secret_of (keypair_of pts s) = s"
    using assms(2) by (simp add: secret_of_keypair_of valid_secret_def)
  have "spec_keypair_xonly_tweak_add pts (keypair_of pts s) t = (1, keypair_of pts ?r)"
    using assms(3,4,5) sec by (simp add: spec_keypair_xonly_tweak_add_def parity_flip_def Let_def)
  then show ?thesis
    using keypair_of_not_zeroed [OF assms(1,2)] l
    by (simp add: Add_def Let_def copy_bytes_same_length)
qed

lemma small_mod_groupOrder: "x < 2 ^ 128 \<Longrightarrow> x mod groupOrder = x"
  by (simp add: groupOrder_def)

lemma small_valid: "0 < x \<Longrightarrow> x < 2 ^ 128 \<Longrightarrow> valid_secret x"
  by (simp add: valid_secret_def groupOrder_def)

lemma be_nat_small: "x < 2 ^ 128 \<Longrightarrow> be_nat (be_bytes 32 x) = x"
  by (rule be_nat_be_bytes_secret) (simp add: groupOrder_def)

lemma sample_Add:
  assumes "0 < s" "s < 2 ^ 100" "even s" "0 < t" "t < 2 ^ 100"
  shows "Add (spec_engine sample_points sample_engine) (be_bytes 32 t) (key_of_secret s) w
         = ((None, key_of_secret (s + t)), called Keypair_xonly_tweak_add w)"
proof -
  have b: "be_nat (be_bytes 32 t) = t"
    using assms(5) by (intro be_nat_small) (simp add: order_less_trans [where y = "2 ^ 100"])
  have st: "s + t < 2 ^ 128"
  proof -
    have "s + t < 2 ^ 100 + 2 ^ 100" using assms(2,5) by (rule add_strict_mono)
    also have "\<dots> < (2::nat) ^ 128" by simp
    finally show ?thesis .
  qed
  have m: "(s + t) mod groupOrder = s + t"
    using st by (rule small_mod_groupOrder)
  have vs: "valid_secret s"
    using assms(1,2) by (intro small_valid) (simp_all add: order_less_trans [where y = "2 ^ 100"])
  have tl: "t < groupOrder"
    using assms(5) by (simp add: groupOrder_def)
  show ?thesis
    unfolding key_of_secret_def
    using Add_spec_eval [OF points_ok_sample vs, of "be_bytes 32 t" sample_engine w] assms(3,4) b m tl
    by (simp add: sample_points_def)
qed

lemma Deserialize_spec_valid:
  assumes "points_ok pts"
    and "DeserializePrivateKey (spec_engine pts eng) sk w = ((Some key, err), w')"
  shows "\<not> isZeroed key"
proof -
  from assms(2) have v: "valid_secret (be_nat sk)"
    and k: "key = \<lparr>keypair_data = copy_bytes (replicate 96 0) (keypair_of pts (be_nat sk))\<rparr>"
    by (auto simp: DeserializePrivateKey_def spec_keypair_create_def split: if_splits)
  have "length (keypair_of pts (be_nat sk)) = 96"
    using assms(1) v by (simp add: points_ok_def keypair_of_def)
  then have "key = \<lparr>keypair_data = keypair_of pts (be_nat sk)\<rparr>"
    using k by (simp add: copy_bytes_same_length)
  then show ?thesis
    using keypair_of_not_zeroed [OF assms(1) v] by simp
qed

lemma Generate_loop_valid:
  assumes run: "GeneratePrivateKey_loop (spec_engine pts eng) src rawKey w = Some y"
    and ok: "points_ok pts" and key: "fst (fst y) = Some key"
  shows "\<not> isZeroed key"
proof -
  have "spec_engine pts eng = spec_engine pts eng \<longrightarrow> (\<forall>key. fst (fst y) = Some key \<longrightarrow> \<not> isZeroed key)"
  proof (rule GeneratePrivateKey_loop.raw_induct
      [where P = "\<lambda>e src rawKey w y. e = spec_engine pts eng \<longrightarrow> (\<forall>key. fst (fst y) = Some key \<longrightarrow> \<not> isZeroed key)",
        OF _ run], goal_cases)
    case (1 loop e src rawKey w y)
    let ?r = "rand_Read src rawKey w"
    let ?d = "DeserializePrivateKey e (fst (fst ?r)) (snd ?r)"
    show ?case
    proof (intro impI allI)
      fix key
      assume e: "e = spec_engine pts eng" and k: "fst (fst y) = Some key"
      from "1"(2) k have read: "\<not> (snd (snd (fst ?r)) \<noteq> None \<or> fst (snd (fst ?r)) \<noteq> length (fst (fst ?r)))"
        by (auto simp: Let_def split: if_splits)
      show "\<not> isZeroed key"
      proof (cases "snd (fst ?d) = None")
        case True
        with "1"(2) read have "y = ((fst (fst ?d), None), snd ?d)"
          by (auto simp: Let_def split: if_splits)
        with k have "fst (fst ?d) = Some key" by simp
        then have "?d = ((Some key, snd (fst ?d)), snd ?d)"
          by (metis prod.collapse)
        then show ?thesis
          using Deserialize_spec_valid [OF ok] e by metis
      next
        case False
        with "1"(2) read have "loop e src (fst (fst ?r)) (snd ?d) = Some y"
          by (auto simp: Let_def split: if_splits)
        then show ?thesis
          using "1"(1) e k by blast
      qed
    qed
  qed
  with key show ?thesis by simp
qed

lemma Deserialize_spec_eval:
  assumes "points_ok pts" and "valid_secret s"
  shows "DeserializePrivateKey (spec_engine pts eng) (be_bytes 32 s) w
         = ((Some \<lparr>keypair_data = keypair_of pts s\<rparr>, None), called Keypair_create w)"
proof -
  have b: "be_nat (be_bytes 32 s) = s"
    using assms(2) by (simp add: valid_secret_def be_nat_be_bytes_secret)
  have "length (keypair_of pts s) = 96"
    using assms by (simp add: points_ok_def keypair_of_def)
  then show ?thesis
    using assms(2) by (simp add: DeserializePrivateKey_def spec_keypair_create_def b copy_bytes_same_length)
qed

lemma Generate_spec_eval:
  assumes "points_ok pts" and "src (rand_reads w) = (bs, None)" and "length bs = 32"
    and "valid_secret (be_nat bs)"
  shows "\<exists>key w'. GeneratePrivateKey (spec_engine pts eng) src w = Some ((Some key, None), w')"
proof -
  have r: "rand_Read src (replicate 32 0) w = ((bs, 32, None), w\<lparr>rand_reads := Suc (rand_reads w)\<rparr>)"
    using assms(2,3) by (simp add: rand_Read_def Let_def)
  have "\<exists>key w'. DeserializePrivateKey (spec_engine pts eng) bs (w\<lparr>rand_reads := Suc (rand_reads w)\<rparr>)
          = ((Some key, None), w')"
    using assms(4) by (simp add: DeserializePrivateKey_def spec_keypair_create_def)
  then show ?thesis
    using assms(3) unfolding GeneratePrivateKey_def SerializedPrivateKeySize_def
    by (subst GeneratePrivateKey_loop.simps) (auto simp: r Let_def)
qed

lemma sample_key_eq: "sample_key = key_of_secret 2"
  by (simp add: sample_key_def key_of_secret_def)

lemma sample_key_length: "length (keypair_data sample_key) = 96"
  by (simp add: sample_key_def keypair_of_def sample_points_def)

subsection \<open>The zeroed predicate\<close>

text \<open>
  C1, as the code has it: on a 96-byte record \<open>isZeroed\<close> is true if and only if at
  least one of the three 32-byte segments (the secret, the first half and the second half
  of the cached public representation) is all-zero; it is false exactly when every
  segment holds a non-zero byte.
\<close>

theorem isZeroed_any_segment:
  assumes "length (keypair_data key) = 96"
  shows "isZeroed key =
     ((\<forall>i<32. keypair_data key ! i = 0)
      \<or> (\<forall>i<32. keypair_data key ! (32 + i) = 0)
      \<or> (\<forall>i<32. keypair_data key ! (64 + i) = 0))"
  using assms by (simp add: isZeroed_def isZeroed_slice_nth)

theorem isZeroed_any_segment_witness:
  "length (keypair_data half_zeroed_key) = 96
   \<and> (isZeroed half_zeroed_key =
     ((\<forall>i<32. keypair_data half_zeroed_key ! i = 0)
      \<or> (\<forall>i<32. keypair_data half_zeroed_key ! (32 + i) = 0)
      \<or> (\<forall>i<32. keypair_data half_zeroed_key ! (64 + i) = 0)))"
proof -
  have h: "length (keypair_data half_zeroed_key) = 96" by (simp add: half_zeroed_key_def)
  show ?thesis using h isZeroed_any_segment [OF h] by simp
qed

text \<open>
  C1 as stated ("true iff every segment is all-zero; false whenever some segment has a
  non-zero byte") fails: the record below has a non-zero secret segment and is reported
  as zeroed, because the segments are combined with \<^verbatim>\<open>||\<close>.
\<close>

theorem isZeroed_every_segment_counterexample:
  "length (keypair_data half_zeroed_key) = 96
   \<and> keypair_data half_zeroed_key ! 0 \<noteq> 0
   \<and> isZeroed half_zeroed_key"
  by (simp add: half_zeroed_key_def isZeroed_def isZeroed_slice_def nth_append list_all_iff)

subsection \<open>Length rejection\<close>

text \<open>
  C4: on a slice whose length is not 32, \<^verbatim>\<open>DeserializePrivateKeyFromSlice\<close> returns no
  key pair and the length error, which is a different error from the one for a secret
  out of range, and the world is unchanged: no engine primitive was called.
\<close>

theorem from_slice_wrong_length:
  assumes "length bs \<noteq> 32"
  shows "DeserializePrivateKeyFromSlice eng bs w = ((None, Some (ErrInvalidLength (length bs) 32)), w)
         \<and> ErrInvalidLength (length bs) 32 \<noteq> ErrInvalidKey"
  using assms by (simp add: DeserializePrivateKeyFromSlice_def SerializedPrivateKeySize_def)

theorem from_slice_wrong_length_witness:
  "length (replicate 33 (7::byte)) \<noteq> 32
   \<and> DeserializePrivateKeyFromSlice sample_engine (replicate 33 7) world0
       = ((None, Some (ErrInvalidLength 33 32)), world0)"
proof -
  have h: "length (replicate 33 (7::byte)) \<noteq> 32" by simp
  show ?thesis using h from_slice_wrong_length [OF h, of sample_engine world0] by simp
qed

subsection \<open>Round trip\<close>

text \<open>
  C5: for every secret \<open>s\<close> with \<open>0 < s < groupOrder\<close>, deserializing its 32-byte
  big-endian encoding succeeds and serializing the resulting key pair gives back exactly
  those 32 bytes. The engine is the one the spec describes.
\<close>

theorem private_key_round_trip:
  assumes "0 < s" and "s < groupOrder"
  shows "\<exists>key w'. DeserializePrivateKey (spec_engine pts eng) (be_bytes 32 s) w = ((Some key, None), w')
           \<and> SerializePrivateKey key = be_bytes 32 s"
proof -
  let ?key = "\<lparr>keypair_data = copy_bytes (replicate 96 0) (keypair_of pts s)\<rparr>"
  have v: "valid_secret (be_nat (be_bytes 32 s))"
    using assms by (simp add: valid_secret_def be_nat_be_bytes_secret)
  have d: "DeserializePrivateKey (spec_engine pts eng) (be_bytes 32 s) w
           = ((Some ?key, None), called Keypair_create w)"
    using v assms by (simp add: DeserializePrivateKey_def spec_keypair_create_def be_nat_be_bytes_secret)
  have "SerializePrivateKey ?key = take 32 (keypair_data ?key)"
    by (rule SerializePrivateKey_take) simp
  also have "\<dots> = be_bytes 32 s"
    by (simp add: take_copy_bytes keypair_of_def)
  finally show ?thesis using d by blast
qed

theorem private_key_round_trip_witness:
  "(0::nat) < 1 \<and> 1 < groupOrder
   \<and> (\<exists>key w'. DeserializePrivateKey (spec_engine sample_points sample_engine) (be_bytes 32 1) world0
                   = ((Some key, None), w')
           \<and> SerializePrivateKey key = be_bytes 32 1)"
proof -
  have h: "(0::nat) < 1" "1 < groupOrder" by (simp_all add: groupOrder_def)
  show ?thesis
    using h private_key_round_trip [OF h, of sample_points sample_engine world0] by simp
qed

subsection \<open>Parity\<close>

text \<open>
  C7: the parity reported by the engine is converted 0 to \<open>False\<close> (even) and 1 to
  \<open>True\<close> (odd); every other value makes the conversion panic, and the panic goes
  through \<^verbatim>\<open>schnorrPublicKeyInternal\<close> and \<^verbatim>\<open>SchnorrPublicKey\<close>: it is neither a
  returned error nor a boolean.
\<close>

theorem parity_conversion:
  "parityBitToBool 0 = Return False
   \<and> parityBitToBool 1 = Return True
   \<and> (parity \<noteq> 0 \<and> parity \<noteq> 1 \<longrightarrow> parityBitToBool parity = Panic parity)
   \<and> (\<not> isZeroed key \<and> secp256k1_keypair_xonly_pub eng (keypair_data key) = (1, pub, Some parity)
        \<and> parity \<noteq> 0 \<and> parity \<noteq> 1
      \<longrightarrow> fst (schnorrPublicKeyInternal eng key w) = Panic parity
          \<and> fst (SchnorrPublicKey eng key w) = Panic parity)"
  by (simp add: parityBitToBool_def schnorrPublicKeyInternal_def SchnorrPublicKey_def)

theorem parity_conversion_witness:
  "(2::cint) \<noteq> 0 \<and> (2::cint) \<noteq> 1 \<and> parityBitToBool 2 = Panic 2
   \<and> \<not> isZeroed sample_key
   \<and> secp256k1_keypair_xonly_pub parity_two_engine (keypair_data sample_key)
        = (1, take 64 (drop 32 (keypair_data sample_key)), Some 2)
   \<and> fst (schnorrPublicKeyInternal parity_two_engine sample_key world0) = Panic 2
   \<and> fst (SchnorrPublicKey parity_two_engine sample_key world0) = Panic 2"
  using parity_conversion [of 2 sample_key parity_two_engine "take 64 (drop 32 (keypair_data sample_key))" world0]
    sample_key_not_zeroed
  by (simp add: parity_two_engine_def)

subsection \<open>The zeroed gate\<close>

text \<open>
  C3, as the code has it: on the all-zero key pair, \<^verbatim>\<open>Add\<close>, \<^verbatim>\<open>SchnorrPublicKey\<close> and
  \<^verbatim>\<open>schnorrSignInternal\<close> fail with the zeroed-key error and leave the world as it was,
  so no engine primitive is called. \<^verbatim>\<open>SchnorrSign\<close> calls no engine primitive either, and
  fails with the zeroed-key error whenever its read of the randomness source filled the
  buffer without an error.
\<close>

theorem zeroed_key_gate:
  assumes "keypair_data key = replicate 96 0"
  shows "Add eng tweak key w = ((Some ErrZeroedKeyPair, key), w)
    \<and> SchnorrPublicKey eng key w = (Return (None, Some ErrZeroedKeyPair), w)
    \<and> schnorrSignInternal eng key hash aux w = ((None, Some ErrZeroedKeyPair), w)
    \<and> engine_log (snd (SchnorrSign eng src key hash w)) = engine_log w
    \<and> (src (rand_reads w) = (bs, None) \<and> 32 \<le> length bs
         \<longrightarrow> fst (SchnorrSign eng src key hash w) = (None, Some ErrZeroedKeyPair))"
proof -
  have z: "isZeroed key" using assms by (rule all_zero_isZeroed)
  have a: "Add eng tweak key w = ((Some ErrZeroedKeyPair, key), w)"
    using z by (simp add: Add_def)
  have p: "SchnorrPublicKey eng key w = (Return (None, Some ErrZeroedKeyPair), w)"
    using z by (simp add: SchnorrPublicKey_def schnorrPublicKeyInternal_def)
  have s: "\<And>aux w. schnorrSignInternal eng key hash aux w = ((None, Some ErrZeroedKeyPair), w)"
    using z by (simp add: schnorrSignInternal_def)
  have l: "engine_log (snd (SchnorrSign eng src key hash w)) = engine_log w"
    using rand_Read_log [of src "replicate 32 0" w]
    by (auto simp: SchnorrSign_def s split: prod.splits)
  have r: "src (rand_reads w) = (bs, None) \<and> 32 \<le> length bs
         \<longrightarrow> fst (SchnorrSign eng src key hash w) = (None, Some ErrZeroedKeyPair)"
    by (simp add: SchnorrSign_def rand_Read_def s)
  from a p s l r show ?thesis by blast
qed

theorem zeroed_key_gate_witness:
  "keypair_data zeroed_key = replicate 96 0
   \<and> Add sample_engine (replicate 32 1) zeroed_key world0 = ((Some ErrZeroedKeyPair, zeroed_key), world0)
   \<and> SchnorrPublicKey sample_engine zeroed_key world0 = (Return (None, Some ErrZeroedKeyPair), world0)
   \<and> full_source (rand_reads world0) = (replicate 32 7, None) \<and> 32 \<le> length (replicate 32 (7::byte))
   \<and> fst (SchnorrSign sample_engine full_source zeroed_key (replicate 32 0) world0) = (None, Some ErrZeroedKeyPair)
   \<and> engine_log (snd (SchnorrSign sample_engine full_source zeroed_key (replicate 32 0) world0)) = []"
proof -
  have h: "keypair_data zeroed_key = replicate 96 0" by (simp add: zeroed_key_def)
  have f: "full_source (rand_reads world0) = (replicate 32 7, None)" by (simp add: full_source_def)
  show ?thesis
    using h f zeroed_key_gate [OF h, of sample_engine "replicate 32 1" world0 "replicate 32 0" _ full_source "replicate 32 7"]
    by (simp add: world0_def)
qed

text \<open>
  C3 as stated ("Sign fails with the zeroed-key error on every all-zero key pair") fails:
  \<^verbatim>\<open>SchnorrSign\<close> draws the auxiliary randomness before the zeroed test, and a failed
  read returns the error of the source.
\<close>

theorem zeroed_sign_counterexample:
  "keypair_data zeroed_key = replicate 96 0
   \<and> fst (SchnorrSign sample_engine failing_source zeroed_key (replicate 32 0) world0)
       = (None, Some (ErrRandSource ''read failed''))
   \<and> fst (SchnorrSign sample_engine failing_source zeroed_key (replicate 32 0) world0)
       \<noteq> (None, Some ErrZeroedKeyPair)"
  by (simp add: zeroed_key_def SchnorrSign_def rand_Read_def failing_source_def)

subsection \<open>Short reads of the randomness source\<close>



subsection \<open>Signing is a function of key pair, hash and auxiliary randomness\<close>



subsection \<open>Tweak addition\<close>

text \<open>
  C6: for a valid key pair and tweaks \<open>t1\<close>, \<open>t2\<close>, if \<^verbatim>\<open>Add(t1)\<close> then \<^verbatim>\<open>Add(t2)\<close>
  succeed on one copy, \<^verbatim>\<open>Add((t1 + t2) mod groupOrder)\<close> succeeds on another copy, and no
  parity flip occurs on either path, then both copies hold the same secret (the same 32
  bytes, hence the same scalar modulo the group order), which is
  \<open>(s + t1 + t2) mod groupOrder\<close>. The engine is the one the spec describes.
\<close>

theorem tweak_add_associative:
  assumes valid: "valid_secret s" "keypair_data key = keypair_of pts s"
    and first: "Add (spec_engine pts eng) t1 key w = ((None, k1), w1)"
    and second: "Add (spec_engine pts eng) t2 k1 w1 = ((None, k2), w2)"
    and once: "Add (spec_engine pts eng) (be_bytes 32 ((be_nat t1 + be_nat t2) mod groupOrder)) key w
               = ((None, k3), w3)"
    and no_flip: "\<not> parity_flip pts (keypair_data key)" "\<not> parity_flip pts (keypair_data k1)"
  shows "SerializePrivateKey k2 = SerializePrivateKey k3
         \<and> be_nat (SerializePrivateKey k2) mod groupOrder = be_nat (SerializePrivateKey k3) mod groupOrder
         \<and> be_nat (SerializePrivateKey k2) = (s + be_nat t1 + be_nat t2) mod groupOrder"
proof -
  have len: "32 \<le> length (keypair_data key)"
    using valid(2) by (simp add: keypair_of_def)
  have s: "secret_of (keypair_data key) = s"
    using valid by (simp add: secret_of_keypair_of valid_secret_def)
  have len1: "32 \<le> length (keypair_data k1)"
    using Add_length [OF first] len by simp
  have len2: "32 \<le> length (keypair_data k2)"
    using Add_length [OF second] len1 by simp
  have len3: "32 \<le> length (keypair_data k3)"
    using Add_length [OF once] len by simp
  have s1: "secret_of (keypair_data k1) = (s + be_nat t1) mod groupOrder"
    using Add_spec_secret [OF first len no_flip(1)] s by simp
  have "take 32 (keypair_data k2) = be_bytes 32 (((s + be_nat t1) mod groupOrder + be_nat t2) mod groupOrder)"
    using Add_spec_success [OF second len1 no_flip(2)] s1 by simp
  then have k2: "take 32 (keypair_data k2) = be_bytes 32 ((s + be_nat t1 + be_nat t2) mod groupOrder)"
    by (simp add: mod_add_left_eq)
  have t12: "be_nat (be_bytes 32 ((be_nat t1 + be_nat t2) mod groupOrder)) = (be_nat t1 + be_nat t2) mod groupOrder"
    using mod_groupOrder_less by (rule be_nat_be_bytes_secret)
  have "take 32 (keypair_data k3) = be_bytes 32 ((s + (be_nat t1 + be_nat t2) mod groupOrder) mod groupOrder)"
    using Add_spec_success [OF once len no_flip(1)] s t12 by simp
  then have k3: "take 32 (keypair_data k3) = be_bytes 32 ((s + be_nat t1 + be_nat t2) mod groupOrder)"
    by (simp add: mod_add_right_eq add.assoc)
  have e2: "SerializePrivateKey k2 = be_bytes 32 ((s + be_nat t1 + be_nat t2) mod groupOrder)"
    using SerializePrivateKey_take [OF len2] k2 by simp
  have e3: "SerializePrivateKey k3 = be_bytes 32 ((s + be_nat t1 + be_nat t2) mod groupOrder)"
    using SerializePrivateKey_take [OF len3] k3 by simp
  have "be_nat (SerializePrivateKey k2) = (s + be_nat t1 + be_nat t2) mod groupOrder"
    unfolding e2 using mod_groupOrder_less by (rule be_nat_be_bytes_secret)
  with e2 e3 show ?thesis by simp
qed

theorem tweak_add_associative_witness:
  "valid_secret 2
   \<and> keypair_data (key_of_secret 2) = keypair_of sample_points 2
   \<and> Add (spec_engine sample_points sample_engine) (be_bytes 32 2) (key_of_secret 2) world0
        = ((None, key_of_secret 4), called Keypair_xonly_tweak_add world0)
   \<and> Add (spec_engine sample_points sample_engine) (be_bytes 32 4) (key_of_secret 4)
          (called Keypair_xonly_tweak_add world0)
        = ((None, key_of_secret 8), called Keypair_xonly_tweak_add (called Keypair_xonly_tweak_add world0))
   \<and> Add (spec_engine sample_points sample_engine)
          (be_bytes 32 ((be_nat (be_bytes 32 2) + be_nat (be_bytes 32 4)) mod groupOrder))
          (key_of_secret 2) world0
        = ((None, key_of_secret 8), called Keypair_xonly_tweak_add world0)
   \<and> \<not> parity_flip sample_points (keypair_data (key_of_secret 2))
   \<and> \<not> parity_flip sample_points (keypair_data (key_of_secret 4))
   \<and> SerializePrivateKey (key_of_secret 8) = SerializePrivateKey (key_of_secret 8)
   \<and> be_nat (SerializePrivateKey (key_of_secret 8)) = 8"
proof -
  have v: "valid_secret 2" by (rule valid_secret_2)
  have d: "keypair_data (key_of_secret 2) = keypair_of sample_points 2"
    by (simp add: key_of_secret_def)
  have a1: "Add (spec_engine sample_points sample_engine) (be_bytes 32 2) (key_of_secret 2) world0
        = ((None, key_of_secret 4), called Keypair_xonly_tweak_add world0)"
    using sample_Add [of 2 2 world0] by simp
  have a2: "Add (spec_engine sample_points sample_engine) (be_bytes 32 4) (key_of_secret 4)
          (called Keypair_xonly_tweak_add world0)
        = ((None, key_of_secret 8), called Keypair_xonly_tweak_add (called Keypair_xonly_tweak_add world0))"
    using sample_Add [of 4 4 "called Keypair_xonly_tweak_add world0"] by simp
  have t: "(be_nat (be_bytes 32 2) + be_nat (be_bytes 32 4)) mod groupOrder = 6"
    by (simp add: be_nat_small small_mod_groupOrder)
  have a3: "Add (spec_engine sample_points sample_engine)
          (be_bytes 32 ((be_nat (be_bytes 32 2) + be_nat (be_bytes 32 4)) mod groupOrder))
          (key_of_secret 2) world0
        = ((None, key_of_secret 8), called Keypair_xonly_tweak_add world0)"
    unfolding t using sample_Add [of 2 6 world0] by simp
  have f1: "\<not> parity_flip sample_points (keypair_data (key_of_secret 2))"
    by (simp add: parity_flip_def key_of_secret_def secret_of_keypair_of groupOrder_def sample_points_def)
  have f2: "\<not> parity_flip sample_points (keypair_data (key_of_secret 4))"
    by (simp add: parity_flip_def key_of_secret_def secret_of_keypair_of groupOrder_def sample_points_def)
  show ?thesis
    using v d a1 a2 a3 f1 f2 tweak_add_associative [OF v d a1 a2 a3 f1 f2]
    by (simp add: be_nat_small small_mod_groupOrder)
qed

subsection \<open>The lifecycle of a key pair\<close>

text \<open>
  C9, as the code has it: a key pair returned by a successful \<^verbatim>\<open>DeserializePrivateKey\<close>
  or \<^verbatim>\<open>GeneratePrivateKey\<close> is not zeroed (and \<^verbatim>\<open>GeneratePrivateKey\<close> does return one
  when the read fills the buffer with a valid secret), and a successful \<^verbatim>\<open>Add\<close> leaves
  a key pair that is not zeroed. \<^verbatim>\<open>Add\<close> is the only operation that writes the key pair.
  The engine is the one the spec describes, for every public representation with
  non-zero halves and for everything a failing tweak addition may leave behind.
\<close>

theorem valid_stays_valid:
  assumes "points_ok pts"
  shows "(DeserializePrivateKey (spec_engine pts eng) sk w = ((Some key, err), w') \<longrightarrow> \<not> isZeroed key)
     \<and> (GeneratePrivateKey (spec_engine pts eng) src w = Some ((Some gkey, gerr), gw) \<longrightarrow> \<not> isZeroed gkey)
     \<and> (src (rand_reads w) = (bs, None) \<and> length bs = 32 \<and> valid_secret (be_nat bs)
          \<longrightarrow> (\<exists>k v. GeneratePrivateKey (spec_engine pts eng) src w = Some ((Some k, None), v)))
     \<and> (length (keypair_data kold) = 96 \<and> Add (spec_engine pts eng) tweak kold wold = ((None, knew), wnew)
          \<longrightarrow> \<not> isZeroed knew)"
proof -
  have d: "DeserializePrivateKey (spec_engine pts eng) sk w = ((Some key, err), w') \<longrightarrow> \<not> isZeroed key"
    using Deserialize_spec_valid [OF assms] by blast
  have g: "GeneratePrivateKey (spec_engine pts eng) src w = Some ((Some gkey, gerr), gw) \<longrightarrow> \<not> isZeroed gkey"
    unfolding GeneratePrivateKey_def using Generate_loop_valid [OF _ assms] by fastforce
  have t: "src (rand_reads w) = (bs, None) \<and> length bs = 32 \<and> valid_secret (be_nat bs)
          \<longrightarrow> (\<exists>k v. GeneratePrivateKey (spec_engine pts eng) src w = Some ((Some k, None), v))"
    using Generate_spec_eval [OF assms] by blast
  have a: "length (keypair_data kold) = 96 \<and> Add (spec_engine pts eng) tweak kold wold = ((None, knew), wnew)
          \<longrightarrow> \<not> isZeroed knew"
  proof (intro impI, elim conjE)
    assume len: "length (keypair_data kold) = 96"
      and add: "Add (spec_engine pts eng) tweak kold wold = ((None, knew), wnew)"
    define s where "s = (if parity_flip pts (keypair_data kold) then groupOrder - secret_of (keypair_data kold)
                         else secret_of (keypair_data kold))"
    define r where "r = (s + be_nat tweak) mod groupOrder"
    from add have r0: "r \<noteq> 0"
      and k1: "keypair_data knew = copy_bytes (keypair_data kold) (keypair_of pts r)"
      by (auto simp: Add_def spec_keypair_xonly_tweak_add_def Let_def r_def s_def split: if_splits)
    have v: "valid_secret r"
      using r0 mod_groupOrder_less [of "s + be_nat tweak"] by (simp add: valid_secret_def r_def)
    have "length (keypair_of pts r) = 96"
      using assms v by (simp add: points_ok_def keypair_of_def)
    then have "keypair_data knew = keypair_of pts r"
      using k1 len by (simp add: copy_bytes_same_length)
    then have "isZeroed knew = isZeroed \<lparr>keypair_data = keypair_of pts r\<rparr>"
      by (simp add: isZeroed_def)
    then show "\<not> isZeroed knew"
      using keypair_of_not_zeroed [OF assms v] by simp
  qed
  from d g t a show ?thesis by blast
qed

theorem valid_stays_valid_witness:
  "points_ok sample_points
   \<and> DeserializePrivateKey (spec_engine sample_points sample_engine) (be_bytes 32 2) world0
       = ((Some sample_key, None), called Keypair_create world0)
   \<and> \<not> isZeroed sample_key
   \<and> good_source (rand_reads world0) = (be_bytes 32 2, None)
   \<and> length (be_bytes 32 2) = 32 \<and> valid_secret (be_nat (be_bytes 32 2))
   \<and> (\<exists>k v. GeneratePrivateKey (spec_engine sample_points sample_engine) good_source world0
              = Some ((Some k, None), v))
   \<and> length (keypair_data sample_key) = 96
   \<and> Add (spec_engine sample_points sample_engine) (be_bytes 32 2) sample_key world0
       = ((None, key_of_secret 4), called Keypair_xonly_tweak_add world0)
   \<and> \<not> isZeroed (key_of_secret 4)"
proof -
  have d: "DeserializePrivateKey (spec_engine sample_points sample_engine) (be_bytes 32 2) world0
       = ((Some sample_key, None), called Keypair_create world0)"
    unfolding sample_key_def by (rule Deserialize_spec_eval [OF points_ok_sample valid_secret_2])
  have s: "good_source (rand_reads world0) = (be_bytes 32 2, None)"
    by (simp add: good_source_def)
  have v: "valid_secret (be_nat (be_bytes 32 2))"
    using valid_secret_2 by (simp add: be_nat_small)
  have a: "Add (spec_engine sample_points sample_engine) (be_bytes 32 2) sample_key world0
       = ((None, key_of_secret 4), called Keypair_xonly_tweak_add world0)"
    unfolding sample_key_eq using sample_Add [of 2 2 world0] by simp
  show ?thesis
    using points_ok_sample d s v a sample_key_length
      valid_stays_valid [OF points_ok_sample, where eng = sample_engine and sk = "be_bytes 32 2"
        and w = world0 and key = sample_key and err = None and w' = "called Keypair_create world0"
        and src = good_source and bs = "be_bytes 32 2" and kold = sample_key and wold = world0
        and tweak = "be_bytes 32 2" and knew = "key_of_secret 4"
        and wnew = "called Keypair_xonly_tweak_add world0"]
    by simp
qed

text \<open>
  C9 as stated ("no operation ever transitions a valid key pair back to the zeroed
  state") fails: \<^verbatim>\<open>Add\<close> hands the key pair to the engine to be rewritten in place and
  keeps what the engine wrote also when the engine reports failure. With a tweak equal
  to the group order, and an engine that invalidates the keypair on failure as
  libsecp256k1 documents, the valid key pair comes back zeroed together with the error.
\<close>

theorem failed_add_zeroes_counterexample:
  "\<not> isZeroed sample_key
   \<and> fst (fst (Add (spec_engine sample_points sample_engine) (be_bytes 32 groupOrder) sample_key world0))
       = Some ErrAddFailed
   \<and> isZeroed (snd (fst (Add (spec_engine sample_points sample_engine) (be_bytes 32 groupOrder) sample_key world0)))"
proof -
  have b: "be_nat (be_bytes 32 groupOrder) = groupOrder"
    using groupOrder_less by (simp add: be_nat_be_bytes)
  have t: "spec_keypair_xonly_tweak_add sample_points (keypair_data sample_key) (be_bytes 32 groupOrder)
           = (0, replicate 96 0)"
    by (simp add: spec_keypair_xonly_tweak_add_def Let_def b sample_points_def)
  have z: "isZeroed (sample_key\<lparr>keypair_data := replicate 96 0\<rparr>)"
    by (rule all_zero_isZeroed) simp
  show ?thesis
    using sample_key_not_zeroed z
    by (simp add: Add_def t Let_def copy_bytes_same_length sample_key_length)
qed

subsection \<open>Outcomes of deserialization\<close>


end
